theory Spec2Isabelle
  imports Complex_Main
begin

section \<open>JavaScript numbers\<close>

text \<open>
  A JavaScript \<^verbatim>\<open>number\<close> is NaN, one of the two infinities, or a finite value.
  Finite values are modelled as reals: the rounding of IEEE-754 double arithmetic, overflow
  of a finite result to an infinity, and the sign of zero are not modelled (a zero divisor
  counts as \<open>+0\<close>). NaN and the infinities propagate as in the language.
\<close>

datatype jsnum = NaN | NegInf | Fin real | PosInf

fun isNaN :: "jsnum \<Rightarrow> bool" where
  "isNaN NaN = True"
| "isNaN _ = False"

fun isFinite :: "jsnum \<Rightarrow> bool" where
  "isFinite (Fin _) = True"
| "isFinite _ = False"

text \<open>The sign of a number that is not NaN, as \<open>-1\<close>, \<open>0\<close> or \<open>1\<close>.\<close>

fun js_sign :: "jsnum \<Rightarrow> real" where
  "js_sign NaN = 0"
| "js_sign NegInf = - 1"
| "js_sign (Fin a) = sgn a"
| "js_sign PosInf = 1"

definition js_inf :: "real \<Rightarrow> jsnum" where
  "js_inf s = (if s = 0 then NaN else if 0 < s then PosInf else NegInf)"

fun js_neg :: "jsnum \<Rightarrow> jsnum" where
  "js_neg NaN = NaN"
| "js_neg NegInf = PosInf"
| "js_neg (Fin a) = Fin (- a)"
| "js_neg PosInf = NegInf"

fun js_add :: "jsnum \<Rightarrow> jsnum \<Rightarrow> jsnum" where
  "js_add NaN _ = NaN"
| "js_add _ NaN = NaN"
| "js_add (Fin a) (Fin b) = Fin (a + b)"
| "js_add (Fin a) y = y"
| "js_add x (Fin b) = x"
| "js_add x y = (if x = y then x else NaN)"

fun js_mul :: "jsnum \<Rightarrow> jsnum \<Rightarrow> jsnum" where
  "js_mul NaN _ = NaN"
| "js_mul _ NaN = NaN"
| "js_mul (Fin a) (Fin b) = Fin (a * b)"
| "js_mul x y = js_inf (js_sign x * js_sign y)"

fun js_div :: "jsnum \<Rightarrow> jsnum \<Rightarrow> jsnum" where
  "js_div NaN _ = NaN"
| "js_div _ NaN = NaN"
| "js_div (Fin a) (Fin b) = (if b = 0 then js_inf (sgn a) else Fin (a / b))"
| "js_div (Fin a) y = Fin 0"
| "js_div x (Fin b) = (if 0 \<le> b then x else js_neg x)"
| "js_div x y = NaN"

fun js_lt :: "jsnum \<Rightarrow> jsnum \<Rightarrow> bool" where
  "js_lt NaN _ = False"
| "js_lt _ NaN = False"
| "js_lt (Fin a) (Fin b) = (a < b)"
| "js_lt NegInf y = (y \<noteq> NegInf)"
| "js_lt x PosInf = (x \<noteq> PosInf)"
| "js_lt x y = False"

fun js_le :: "jsnum \<Rightarrow> jsnum \<Rightarrow> bool" where
  "js_le NaN _ = False"
| "js_le _ NaN = False"
| "js_le x y = (x = y \<or> js_lt x y)"

text \<open>
  The operators \<open>+\<close>, \<open>-\<close>, \<open>*\<close>, \<open>/\<close>, \<open><\<close> and \<open>\<le>\<close> on \<open>jsnum\<close> are the ones of
  the language (\<open>x > y\<close> is \<open>y < x\<close>). Every comparison with NaN is false, so \<open>\<le>\<close> is
  not the negation of \<open>>\<close>.
\<close>

instantiation jsnum :: "{plus, minus, uminus, times, inverse, ord}"
begin

definition plus_jsnum :: "jsnum \<Rightarrow> jsnum \<Rightarrow> jsnum" where
  "plus_jsnum x y = js_add x y"

definition uminus_jsnum :: "jsnum \<Rightarrow> jsnum" where
  "uminus_jsnum x = js_neg x"

definition minus_jsnum :: "jsnum \<Rightarrow> jsnum \<Rightarrow> jsnum" where
  "minus_jsnum x y = js_add x (js_neg y)"

definition times_jsnum :: "jsnum \<Rightarrow> jsnum \<Rightarrow> jsnum" where
  "times_jsnum x y = js_mul x y"

definition divide_jsnum :: "jsnum \<Rightarrow> jsnum \<Rightarrow> jsnum" where
  "divide_jsnum x y = js_div x y"

definition inverse_jsnum :: "jsnum \<Rightarrow> jsnum" where
  "inverse_jsnum x = js_div (Fin 1) x"

definition less_jsnum :: "jsnum \<Rightarrow> jsnum \<Rightarrow> bool" where
  "less_jsnum x y = js_lt x y"

definition less_eq_jsnum :: "jsnum \<Rightarrow> jsnum \<Rightarrow> bool" where
  "less_eq_jsnum x y = js_le x y"

instance ..

end

section \<open>JSON values and the conversions of the language\<close>

text \<open>
  What \<^verbatim>\<open>response.json()\<close> and \<^verbatim>\<open>JSON.parse\<close> return. An object is the list of
  its own properties, each key once. A value of type \<^verbatim>\<open>any\<close> is a JSON value or
  \<^verbatim>\<open>undefined\<close> (\<open>None\<close>).
\<close>

datatype json =
    JNull
  | JBool bool
  | JNum jsnum
  | JStr string
  | JArr "json list"
  | JObj "(string \<times> json) list"

type_synonym any = "json option"

datatype error =
    UpstreamError string
  | TransportError
  | SyntaxError
  | TypeError

text \<open>
  The functions of the JavaScript runtime that read or print a number: they are not code
  of this repository, so the model takes them as given. \<open>StringToNumber\<close> is \<^verbatim>\<open>Number(s)\<close>
  on a string, \<open>NumberToString\<close> is \<^verbatim>\<open>String(n)\<close> on a number, and \<open>JSON_parse\<close> returns
  \<open>None\<close> where \<^verbatim>\<open>JSON.parse\<close> throws.
\<close>

record js_runtime =
  parseFloat :: "string \<Rightarrow> jsnum"
  StringToNumber :: "string \<Rightarrow> jsnum"
  NumberToString :: "jsnum \<Rightarrow> string"
  JSON_parse :: "string \<Rightarrow> json option"

text \<open>
  Reading a property: \<^verbatim>\<open>null.k\<close> throws a TypeError, an object gives its property or
  \<^verbatim>\<open>undefined\<close>, and every other JSON value gives \<^verbatim>\<open>undefined\<close> for the keys this
  program reads.
\<close>

fun get_prop :: "json \<Rightarrow> string \<Rightarrow> error + any" where
  "get_prop JNull k = Inl TypeError"
| "get_prop (JObj kvs) k = Inr (map_of kvs k)"
| "get_prop _ k = Inr None"

text \<open>
  \<^verbatim>\<open>String(v)\<close> on a parsed JSON value. A parsed object has no callable property of its
  own: with an own \<^verbatim>\<open>toString\<close> the conversion to a primitive finds no method that
  returns one and throws a TypeError, and without it the inherited method gives
  \<^verbatim>\<open>[object Object]\<close>. An array is joined with commas, \<^verbatim>\<open>null\<close> elements printed as the
  empty string, and throws when an element does.
\<close>

fun ToString_js :: "js_runtime \<Rightarrow> json \<Rightarrow> error + string"
  and join_js :: "js_runtime \<Rightarrow> json list \<Rightarrow> error + string"
  and element_js :: "js_runtime \<Rightarrow> json \<Rightarrow> error + string" where
  "ToString_js rt JNull = Inr ''null''"
| "ToString_js rt (JBool b) = Inr (if b then ''true'' else ''false'')"
| "ToString_js rt (JNum n) = Inr (NumberToString rt n)"
| "ToString_js rt (JStr s) = Inr s"
| "ToString_js rt (JArr xs) = join_js rt xs"
| "ToString_js rt (JObj kvs) =
     (if map_of kvs ''toString'' \<noteq> None then Inl TypeError else Inr ''[object Object]'')"
| "join_js rt [] = Inr []"
| "join_js rt [x] = element_js rt x"
| "join_js rt (x # y # ys) =
     (case element_js rt x of
        Inl e \<Rightarrow> Inl e
      | Inr s \<Rightarrow>
          (case join_js rt (y # ys) of
             Inl e \<Rightarrow> Inl e
           | Inr r \<Rightarrow> Inr (s @ '','' @ r)))"
| "element_js rt x = (if x = JNull then Inr [] else ToString_js rt x)"

text \<open>
  \<^verbatim>\<open>Number(val)\<close>, which is also the conversion that \<^verbatim>\<open>val / 31.1035\<close> applies. On an
  array or an object it converts the string of the value, and throws when that throws.
\<close>

fun Number_js :: "js_runtime \<Rightarrow> any \<Rightarrow> error + jsnum" where
  "Number_js rt None = Inr NaN"
| "Number_js rt (Some JNull) = Inr (Fin 0)"
| "Number_js rt (Some (JBool b)) = Inr (if b then Fin 1 else Fin 0)"
| "Number_js rt (Some (JNum n)) = Inr n"
| "Number_js rt (Some (JStr s)) = Inr (StringToNumber rt s)"
| "Number_js rt (Some v) =
     (case ToString_js rt v of
        Inl e \<Rightarrow> Inl e
      | Inr s \<Rightarrow> Inr (StringToNumber rt s))"

fun truthy :: "any \<Rightarrow> bool" where
  "truthy None = False"
| "truthy (Some JNull) = False"
| "truthy (Some (JBool b)) = b"
| "truthy (Some (JNum n)) = (n \<noteq> NaN \<and> n \<noteq> Fin 0)"
| "truthy (Some (JStr s)) = (s \<noteq> [])"
| "truthy (Some v) = True"

text \<open>\<^verbatim>\<open>text || dflt\<close> for an optional string: the default replaces \<^verbatim>\<open>undefined\<close> and \<^verbatim>\<open>""\<close>.\<close>

fun text_or :: "string option \<Rightarrow> string \<Rightarrow> string" where
  "text_or None dflt = dflt"
| "text_or (Some s) dflt = (if s = [] then dflt else s)"

section \<open>The price service (metalService)\<close>

record MetalPrices =
  gold24k :: jsnum
  gold22k :: jsnum
  gold18k :: jsnum
  silver :: jsnum
  copper :: jsnum
  lastUpdated :: json
  currency :: string

text \<open>
  \<open>lastUpdated\<close> is declared a string; at run time the second tier stores whatever truthy
  JSON value the response carries under \<^verbatim>\<open>last_updated_time\<close>, so the field is a JSON value.

  The outcomes of the outside world in one run of \<open>fetchLiveMetalPrices\<close>: the HTTP exchange
  for each symbol, the two calls of the generative model, and the clock string
  \<^verbatim>\<open>new Date().toLocaleString()\<close> read by the return statement that is reached.
\<close>

datatype http_outcome =
    NetworkFailure
  | Response (ok: bool) (statusText: string) (body: "json option")

datatype gen_outcome =
    GenFailure
  | GenResponse (response_text: "string option")

record world =
  http_get :: "string \<Rightarrow> http_outcome"
  gen_copper :: gen_outcome
  gen_search :: gen_outcome
  now :: string

text \<open>
  \<open>fetchFromGoldApi\<close>: \<^verbatim>\<open>fetch\<close> rejects on a network failure, a response that is not ok
  throws the error with the status text, and \<^verbatim>\<open>response.json()\<close> rejects on a body that
  is not JSON (\<open>body = None\<close>).
\<close>

fun fetchFromGoldApi :: "http_outcome \<Rightarrow> error + json" where
  "fetchFromGoldApi NetworkFailure = Inl TransportError"
| "fetchFromGoldApi (Response is_ok st b) =
     (if \<not> is_ok then Inl (UpstreamError (''GoldAPI error: '' @ st))
      else case b of None \<Rightarrow> Inl SyntaxError | Some j \<Rightarrow> Inr j)"

text \<open>\<^verbatim>\<open>Promise.all\<close> of two promises: rejected when one of them is.\<close>

fun Promise_all :: "error + 'a \<Rightarrow> error + 'b \<Rightarrow> error + ('a \<times> 'b)" where
  "Promise_all (Inr a) (Inr b) = Inr (a, b)"
| "Promise_all (Inl e) _ = Inl e"
| "Promise_all _ (Inl e) = Inl e"

text \<open>The copper estimate: the inner \<^verbatim>\<open>try\<close> of the first tier, which keeps 945.25 on any failure.\<close>

definition copper_estimate :: "js_runtime \<Rightarrow> world \<Rightarrow> jsnum" where
  "copper_estimate rt w =
     (case gen_copper w of
        GenFailure \<Rightarrow> Fin 945.25
      | GenResponse t \<Rightarrow>
          (let val = parseFloat rt (text_or t [])
           in if \<not> isNaN val then val else Fin 945.25))"

text \<open>
  The left operand of \<^verbatim>\<open>goldData.price / 31.1035\<close> as a number: reading the property
  throws on \<^verbatim>\<open>null\<close>, and the division converts what it read, which can throw too.
\<close>

definition price_of :: "js_runtime \<Rightarrow> json \<Rightarrow> error + jsnum" where
  "price_of rt quoteData =
     (case get_prop quoteData ''price'' of
        Inl e \<Rightarrow> Inl e
      | Inr price \<Rightarrow> Number_js rt price)"

text \<open>
  The body of the outer \<^verbatim>\<open>try\<close>: the two quotes, the conversions, the two plausibility
  gates, the derived alloys, the copper estimate and the returned object. The object
  carries \<open>goldPricePerGram24k\<close> and \<open>silverPricePerKg\<close>, as the source does.
\<close>

definition goldapi_tier :: "js_runtime \<Rightarrow> world \<Rightarrow> error + MetalPrices" where
  "goldapi_tier rt w =
     (case Promise_all (fetchFromGoldApi (http_get w ''XAU''))
                       (fetchFromGoldApi (http_get w ''XAG'')) of
        Inl e \<Rightarrow> Inl e
      | Inr (goldData, silverData) \<Rightarrow>
          (case price_of rt goldData of
             Inl e \<Rightarrow> Inl e
           | Inr goldPrice \<Rightarrow>
               (let goldPricePerGram24k = goldPrice / Fin 31.1035;
                    finalGold24k =
                      (if goldPricePerGram24k > Fin 5000 \<and> goldPricePerGram24k < Fin 12000
                       then goldPricePerGram24k else Fin 8250.50);
                    goldPricePerGram22k = finalGold24k * (Fin 22 / Fin 24);
                    goldPricePerGram18k = finalGold24k * (Fin 18 / Fin 24)
                in case price_of rt silverData of
                     Inl e \<Rightarrow> Inl e
                   | Inr silverPrice \<Rightarrow>
                       (let silverPricePerKg = (silverPrice / Fin 31.1035) * Fin 1000;
                            finalSilver =
                              (if silverPricePerKg > Fin 50000 \<and> silverPricePerKg < Fin 150000
                               then silverPricePerKg else Fin 105000.75);
                            copperPrice = copper_estimate rt w
                        in Inr \<lparr> gold24k = goldPricePerGram24k,
                                 gold22k = goldPricePerGram22k,
                                 gold18k = goldPricePerGram18k,
                                 silver = silverPricePerKg,
                                 copper = copperPrice,
                                 lastUpdated = JStr (now w),
                                 currency = ''INR'' \<rparr>))))"

text \<open>\<open>validate\<close>; it throws when \<^verbatim>\<open>Number(val)\<close> does.\<close>

definition validate :: "js_runtime \<Rightarrow> any \<Rightarrow> jsnum \<Rightarrow> error + jsnum" where
  "validate rt val fallback =
     (case Number_js rt val of
        Inl e \<Rightarrow> Inl e
      | Inr num \<Rightarrow> Inr (if isNaN num \<or> num \<le> Fin 0 then fallback else num))"

text \<open>\<^verbatim>\<open>validate(data.key, fallback)\<close>: the property is read, then validated.\<close>

definition validated_field :: "js_runtime \<Rightarrow> json \<Rightarrow> string \<Rightarrow> jsnum \<Rightarrow> error + jsnum" where
  "validated_field rt data key fallback =
     (case get_prop data key of
        Inl e \<Rightarrow> Inl e
      | Inr val \<Rightarrow> validate rt val fallback)"

text \<open>
  The object built from the parsed response, its fields evaluated in the order of the
  source. Reading a property of \<^verbatim>\<open>null\<close> throws, and so does a \<open>validate\<close> whose
  conversion throws; either leaves the inner \<^verbatim>\<open>try\<close>.
\<close>

definition search_snapshot :: "js_runtime \<Rightarrow> string \<Rightarrow> json \<Rightarrow> error + MetalPrices" where
  "search_snapshot rt clock data =
     (case validated_field rt data ''gold24k_per_gram'' (Fin 8650) of Inl e \<Rightarrow> Inl e | Inr g24 \<Rightarrow>
      case validated_field rt data ''gold22k_per_gram'' (Fin 7930) of Inl e \<Rightarrow> Inl e | Inr g22 \<Rightarrow>
      case validated_field rt data ''gold18k_per_gram'' (Fin 6480) of Inl e \<Rightarrow> Inl e | Inr g18 \<Rightarrow>
      case validated_field rt data ''silver_per_kg'' (Fin 108500) of Inl e \<Rightarrow> Inl e | Inr sv \<Rightarrow>
      case validated_field rt data ''copper_per_kg'' (Fin 920) of Inl e \<Rightarrow> Inl e | Inr cu \<Rightarrow>
      case get_prop data ''last_updated_time'' of Inl e \<Rightarrow> Inl e | Inr lu \<Rightarrow>
        Inr \<lparr> gold24k = g24,
              gold22k = g22,
              gold18k = g18,
              silver = sv,
              copper = cu,
              lastUpdated = (case lu of Some v \<Rightarrow> if truthy lu then v else JStr clock
                                       | None \<Rightarrow> JStr clock),
              currency = ''INR'' \<rparr>)"

text \<open>The body of the inner \<^verbatim>\<open>try\<close>: the search-augmented request and its JSON answer.\<close>

definition search_tier :: "js_runtime \<Rightarrow> world \<Rightarrow> error + MetalPrices" where
  "search_tier rt w =
     (case gen_search w of
        GenFailure \<Rightarrow> Inl TransportError
      | GenResponse t \<Rightarrow>
          (case JSON_parse rt (text_or t ''{}'') of
             None \<Rightarrow> Inl SyntaxError
           | Some data \<Rightarrow> search_snapshot rt (now w) data))"

definition static_snapshot :: "world \<Rightarrow> MetalPrices" where
  "static_snapshot w =
     \<lparr> gold24k = Fin 8650,
       gold22k = Fin 7930,
       gold18k = Fin 6480,
       silver = Fin 108500,
       copper = Fin 920,
       lastUpdated = JStr (now w),
       currency = ''INR'' \<rparr>"

text \<open>
  \<open>fetchLiveMetalPrices\<close>: \<^verbatim>\<open>try { first tier } catch { try { second tier } catch { static } }\<close>.
  The result type keeps the error case, so that returning a value is a theorem and not a
  matter of typing.
\<close>

definition fetchLiveMetalPrices :: "js_runtime \<Rightarrow> world \<Rightarrow> error + MetalPrices" where
  "fetchLiveMetalPrices rt w =
     (case goldapi_tier rt w of
        Inr prices \<Rightarrow> Inr prices
      | Inl error \<Rightarrow>
          (case search_tier rt w of
             Inr prices \<Rightarrow> Inr prices
           | Inl fallbackError \<Rightarrow> Inr (static_snapshot w)))"

section \<open>The dashboard (App): reload, live ticker and chart history\<close>

record PriceHistory =
  time :: string
  "value" :: jsnum

datatype metal = Gold | Silver | Copper

text \<open>
  The part of the component state that the ticker reads and writes. \<open>history\<close> has the
  three keys \<^verbatim>\<open>gold\<close>, \<^verbatim>\<open>silver\<close> and \<^verbatim>\<open>copper\<close> from its initial value on.
\<close>

record app_state =
  basePrices :: "MetalPrices option"
  livePrices :: "MetalPrices option"
  history :: "metal \<Rightarrow> PriceHistory list"

definition initial_state :: app_state where
  "initial_state = \<lparr> basePrices = None, livePrices = None, history = (\<lambda>m. []) \<rparr>"

text \<open>\<open>loadPrices\<close>, once \<open>fetchLiveMetalPrices\<close> has returned \<open>data\<close>.\<close>

definition loadPrices :: "MetalPrices \<Rightarrow> app_state \<Rightarrow> app_state" where
  "loadPrices data s =
     (let cleanData = data
            \<lparr> gold24k := (if isNaN (gold24k data) then Fin 8650 else gold24k data),
              gold22k := (if isNaN (gold22k data) then Fin 7930 else gold22k data),
              gold18k := (if isNaN (gold18k data) then Fin 6480 else gold18k data),
              silver := (if isNaN (silver data) then Fin 108500 else silver data),
              copper := (if isNaN (copper data) then Fin 920 else copper data) \<rparr>
      in s \<lparr> basePrices := Some cleanData, livePrices := Some cleanData \<rparr>)"

text \<open>\<open>fluctuate\<close>; \<open>rnd\<close> is the value that \<^verbatim>\<open>Math.random()\<close> returns in this call.\<close>

definition fluctuate :: "jsnum \<Rightarrow> jsnum \<Rightarrow> jsnum" where
  "fluctuate rnd val =
     (if isNaN val then Fin 1000
      else (let change = Fin 1 + (rnd * Fin 0.001 - Fin 0.0005);
                result = val * change
            in if isNaN result then val else result))"

text \<open>
  What one tick reads from outside: the five values of \<^verbatim>\<open>Math.random()\<close>, in the order
  of the calls, and the clock string of \<^verbatim>\<open>toLocaleTimeString\<close>.
\<close>

record tick_env =
  rnd24k :: jsnum
  rnd22k :: jsnum
  rnd18k :: jsnum
  rndSilver :: jsnum
  rndCopper :: jsnum
  clock :: string

text \<open>The object \<open>updated\<close> of the ticker.\<close>

definition updated_prices :: "tick_env \<Rightarrow> MetalPrices \<Rightarrow> MetalPrices" where
  "updated_prices e prev = prev
     \<lparr> gold24k := fluctuate (rnd24k e) (gold24k prev),
       gold22k := fluctuate (rnd22k e) (gold22k prev),
       gold18k := fluctuate (rnd18k e) (gold18k prev),
       silver := fluctuate (rndSilver e) (silver prev),
       copper := fluctuate (rndCopper e) (copper prev) \<rparr>"

definition metal_value :: "metal \<Rightarrow> MetalPrices \<Rightarrow> jsnum" where
  "metal_value m updated =
     (if m = Gold then gold24k updated else if m = Silver then silver updated
      else copper updated)"

text \<open>
  The body of \<^verbatim>\<open>metals.forEach\<close>. \<^verbatim>\<open>slice(-19)\<close> keeps the last 19 elements, and the
  whole array when it has fewer: \<open>drop (length xs - 19) xs\<close> with the truncating
  subtraction of \<open>nat\<close>.
\<close>

definition record_point ::
  "string \<Rightarrow> MetalPrices \<Rightarrow> metal \<Rightarrow> (metal \<Rightarrow> PriceHistory list) \<Rightarrow> (metal \<Rightarrow> PriceHistory list)" where
  "record_point now_str updated m newHistory =
     (let val = metal_value m updated
      in if \<not> isNaN val
         then newHistory
                (m := drop (length (newHistory m) - 19) (newHistory m)
                      @ [\<lparr> time = now_str, value = val \<rparr>])
         else newHistory)"

definition update_history ::
  "string \<Rightarrow> MetalPrices \<Rightarrow> (metal \<Rightarrow> PriceHistory list) \<Rightarrow> (metal \<Rightarrow> PriceHistory list)" where
  "update_history now_str updated h = fold (record_point now_str updated) [Gold, Silver, Copper] h"

text \<open>
  One firing of the ticker interval. The interval exists only once \<open>basePrices\<close> is set,
  and the updater returns \<open>prev\<close> unchanged when it is null.
\<close>

definition tick :: "tick_env \<Rightarrow> app_state \<Rightarrow> app_state" where
  "tick e s =
     (if basePrices s = None then s
      else case livePrices s of
             None \<Rightarrow> s
           | Some prev \<Rightarrow>
               (let updated = updated_prices e prev
                in s \<lparr> livePrices := Some updated,
                       history := update_history (clock e) updated (history s) \<rparr>))"

text \<open>The two timers share one thread: a run of the dashboard is a sequence of events.\<close>

datatype event = Tick tick_env | Reload MetalPrices

fun step :: "event \<Rightarrow> app_state \<Rightarrow> app_state" where
  "step (Tick e) s = tick e s"
| "step (Reload data) s = loadPrices data s"

definition run :: "event list \<Rightarrow> app_state \<Rightarrow> app_state" where
  "run evs s = fold step evs s"

text \<open>
  The points that a run appends to the history of metal \<open>m\<close>, in the order of the appends,
  with nothing evicted: the reference that the bounded history is compared with.
\<close>

definition new_points :: "event \<Rightarrow> app_state \<Rightarrow> metal \<Rightarrow> PriceHistory list" where
  "new_points ev s m =
     (case ev of
        Reload data \<Rightarrow> []
      | Tick e \<Rightarrow>
          (if basePrices s = None then []
           else case livePrices s of
                  None \<Rightarrow> []
                | Some prev \<Rightarrow>
                    [\<lparr> time = clock e, value = metal_value m (updated_prices e prev) \<rparr>]))"

fun appended :: "event list \<Rightarrow> app_state \<Rightarrow> metal \<Rightarrow> PriceHistory list" where
  "appended [] s m = []"
| "appended (ev # evs) s m = new_points ev s m @ appended evs (step ev s) m"

section \<open>Worked inputs\<close>

text \<open>
  Answers of the search-augmented request, as text and as \<^verbatim>\<open>JSON.parse\<close> reads them.
  The first has a usable 24k price, a negative 22k price, a null silver price and no other
  key.
\<close>

definition text_partial :: string where
  \<open>text_partial =
     ''{"gold24k_per_gram": 8700, "gold22k_per_gram": -1, "silver_per_kg": null}''\<close>

definition data_partial :: json where
  "data_partial =
     JObj [(''gold24k_per_gram'', JNum (Fin 8700)),
           (''gold22k_per_gram'', JNum (Fin (- 1))),
           (''silver_per_kg'', JNull)]"

text \<open>
  An answer whose 24k price is an object with a property \<^verbatim>\<open>toString\<close> of its own, beside
  a usable silver price.
\<close>

definition text_tostring :: string where
  \<open>text_tostring = ''{"gold24k_per_gram": {"toString": 1}, "silver_per_kg": 100000}''\<close>

definition data_tostring :: json where
  "data_tostring =
     JObj [(''gold24k_per_gram'', JObj [(''toString'', JNum (Fin 1))]),
           (''silver_per_kg'', JNum (Fin 100000))]"

text \<open>
  An answer that gives the 24k price as \<^verbatim>\<open>1e999\<close>, a JSON number beyond the range of a
  double, which \<^verbatim>\<open>JSON.parse\<close> reads as \<^verbatim>\<open>Infinity\<close>.
\<close>

definition text_infinite :: string where
  \<open>text_infinite = ''{"gold24k_per_gram": 1e999}''\<close>

definition data_infinite :: json where
  "data_infinite = JObj [(''gold24k_per_gram'', JNum PosInf)]"

text \<open>
  A runtime that agrees with the language wherever the worked inputs call it:
  \<^verbatim>\<open>parseFloat("950.5")\<close>, \<^verbatim>\<open>Number("")\<close>, \<^verbatim>\<open>Number("[object Object]")\<close>, \<^verbatim>\<open>String(1)\<close>, and
  \<^verbatim>\<open>JSON.parse\<close> of \<^verbatim>\<open>{}\<close> and of the three texts above. The general theorems hold
  for every runtime.
\<close>

definition example_runtime :: js_runtime where
  "example_runtime =
     \<lparr> parseFloat = (\<lambda>s. if s = ''950.5'' then Fin 950.5 else NaN),
       StringToNumber = (\<lambda>s. if s = [] then Fin 0 else NaN),
       NumberToString = (\<lambda>n. if n = Fin 1 then ''1'' else ''NaN''),
       JSON_parse = (\<lambda>s. if s = ''{}'' then Some (JObj [])
                           else if s = text_partial then Some data_partial
                           else if s = text_infinite then Some data_infinite
                           else if s = text_tostring then Some data_tostring
                           else None) \<rparr>"

definition quote :: "real \<Rightarrow> http_outcome" where
  "quote p = Response True ''OK'' (Some (JObj [(''price'', JNum (Fin p))]))"

text \<open>Gold at 279500 and silver at 3000 per troy ounce: both inside their bands.\<close>

definition world_plausible :: world where
  "world_plausible =
     \<lparr> http_get = (\<lambda>symbol. if symbol = ''XAU'' then quote 279500 else quote 3000),
       gen_copper = GenResponse (Some ''950.5''),
       gen_search = GenFailure,
       now = ''3/11/2026, 10:00:00'' \<rparr>"

definition plausible_snapshot :: MetalPrices where
  "plausible_snapshot =
     \<lparr> gold24k = Fin (279500 / 31.1035),
       gold22k = Fin (279500 / 31.1035 * (22 / 24)),
       gold18k = Fin (279500 / 31.1035 * (18 / 24)),
       silver = Fin (3000 / 31.1035 * 1000),
       copper = Fin 950.5,
       lastUpdated = JStr ''3/11/2026, 10:00:00'',
       currency = ''INR'' \<rparr>"

text \<open>Gold at 50 and silver at 10 per troy ounce: both outside their bands.\<close>

definition world_implausible :: world where
  "world_implausible =
     \<lparr> http_get = (\<lambda>symbol. if symbol = ''XAU'' then quote 50 else quote 10),
       gen_copper = GenFailure,
       gen_search = GenFailure,
       now = ''3/11/2026, 10:00:00'' \<rparr>"

text \<open>The quote service answers 429; the generative model answers with the given text.\<close>

definition world_rate_limited :: "string option \<Rightarrow> world" where
  "world_rate_limited answer =
     \<lparr> http_get = (\<lambda>symbol. Response False ''Too Many Requests'' None),
       gen_copper = GenFailure,
       gen_search = GenResponse answer,
       now = ''3/11/2026, 10:00:00'' \<rparr>"

text \<open>Nothing outside answers.\<close>

definition world_offline :: world where
  "world_offline =
     \<lparr> http_get = (\<lambda>symbol. NetworkFailure),
       gen_copper = GenFailure,
       gen_search = GenFailure,
       now = ''3/11/2026, 10:00:00'' \<rparr>"

definition example_prices :: MetalPrices where
  "example_prices =
     \<lparr> gold24k = Fin 8650, gold22k = Fin 7930, gold18k = Fin 6480,
       silver = PosInf, copper = Fin 920,
       lastUpdated = JStr ''3/11/2026, 10:00:00'', currency = ''INR'' \<rparr>"

text \<open>\<^verbatim>\<open>Math.random()\<close> returns 0.5 five times: the perturbation is \<open>0.5 * 0.001 - 0.0005 = 0\<close>.\<close>

definition zero_drift :: tick_env where
  "zero_drift =
     \<lparr> rnd24k = Fin 0.5, rnd22k = Fin 0.5, rnd18k = Fin 0.5,
       rndSilver = Fin 0.5, rndCopper = Fin 0.5, clock = ''10:00:01'' \<rparr>"

definition loaded_state :: app_state where
  "loaded_state = loadPrices example_prices initial_state"

section \<open>Facts about numbers and conversions\<close>

lemmas jsnum_ops =
  plus_jsnum_def minus_jsnum_def uminus_jsnum_def times_jsnum_def divide_jsnum_def
  less_jsnum_def less_eq_jsnum_def js_inf_def

lemma isNaN_iff: "isNaN x = (x = NaN)"
  by (cases x) simp_all

lemma not_le_zero_iff: "x \<noteq> NaN \<Longrightarrow> (\<not> x \<le> Fin 0) = (Fin 0 < x)"
  by (cases x) (auto simp: jsnum_ops)

lemma mul_one: "val \<noteq> NaN \<Longrightarrow> val * Fin 1 = val"
  by (cases val) (simp_all add: jsnum_ops)

lemma get_prop_any_key: "get_prop d k = Inr v \<Longrightarrow> \<exists>v'. get_prop d k' = Inr v'"
  by (cases d) simp_all

text \<open>
  \<open>validate\<close> keeps a number exactly when it is not NaN and above zero, and throws exactly
  when the conversion does.
\<close>

lemma validate_Inr:
  assumes "Number_js rt v = Inr n"
  shows "validate rt v fb = Inr (if n \<noteq> NaN \<and> Fin 0 < n then n else fb)"
  using assms not_le_zero_iff [of n]
  by (auto simp: validate_def isNaN_iff jsnum_ops)

lemma validate_Inl: "Number_js rt v = Inl e \<Longrightarrow> validate rt v fb = Inl e"
  by (simp add: validate_def)

lemma validated_field_Inr:
  assumes "get_prop data k = Inr v" and "Number_js rt v = Inr n"
  shows "validated_field rt data k fb = Inr (if n \<noteq> NaN \<and> Fin 0 < n then n else fb)"
  using assms by (simp add: validated_field_def validate_Inr)

lemma validated_field_Inl:
  assumes "get_prop data k = Inr v" and "Number_js rt v = Inl e"
  shows "validated_field rt data k fb = Inl e"
  using assms by (simp add: validated_field_def validate_Inl)

section \<open>The price service\<close>

lemma tier_currency:
  "goldapi_tier rt w = Inr p \<Longrightarrow> currency p = ''INR''"
  "search_tier rt w = Inr p \<Longrightarrow> currency p = ''INR''"
  by (auto simp: goldapi_tier_def search_tier_def search_snapshot_def Let_def
           split: sum.splits gen_outcome.splits option.splits prod.splits)

text \<open>The outer \<^verbatim>\<open>catch\<close>: a first tier that returns is the result, one that throws is demoted.\<close>

lemma fetch_from_goldapi:
  "goldapi_tier rt w = Inr p \<Longrightarrow> fetchLiveMetalPrices rt w = Inr p"
  by (simp add: fetchLiveMetalPrices_def)

lemma fetch_from_search:
  "goldapi_tier rt w = Inl e \<Longrightarrow> search_tier rt w = Inr p \<Longrightarrow> fetchLiveMetalPrices rt w = Inr p"
  by (simp add: fetchLiveMetalPrices_def)

lemma fetch_from_static:
  "goldapi_tier rt w = Inl e \<Longrightarrow> search_tier rt w = Inl e'
     \<Longrightarrow> fetchLiveMetalPrices rt w = Inr (static_snapshot w)"
  by (simp add: fetchLiveMetalPrices_def)

text \<open>What makes a tier throw.\<close>

lemma goldapi_tier_adapter_failure:
  assumes "fetchFromGoldApi (http_get w ''XAU'') = Inl e
         \<or> fetchFromGoldApi (http_get w ''XAG'') = Inl e"
  shows "\<exists>e'. goldapi_tier rt w = Inl e'"
proof (cases "fetchFromGoldApi (http_get w ''XAU'')")
  case (Inl a)
  then show ?thesis by (simp add: goldapi_tier_def)
next
  case (Inr g)
  then have "fetchFromGoldApi (http_get w ''XAG'') = Inl e"
    using assms by auto
  then show ?thesis using Inr by (simp add: goldapi_tier_def)
qed

lemma search_tier_generative_failure:
  assumes "gen_search w = GenFailure
         \<or> (\<exists>t. gen_search w = GenResponse t \<and> JSON_parse rt (text_or t ''{}'') = None)"
  shows "\<exists>e'. search_tier rt w = Inl e'"
  using assms by (auto simp: search_tier_def)

text \<open>The inner \<^verbatim>\<open>try\<close> around the copper request: its outcome never makes the first tier throw.\<close>

lemma goldapi_tier_copper_contained:
  "(\<exists>e. goldapi_tier rt (w\<lparr>gen_copper := g\<rparr>) = Inl e) = (\<exists>e. goldapi_tier rt w = Inl e)"
  by (auto simp: goldapi_tier_def Let_def split: sum.splits prod.splits)

text \<open>The second tier's object: built when every conversion returns, abandoned when one throws.\<close>

lemma search_snapshot_Inr:
  assumes "get_prop data ''gold24k_per_gram'' = Inr g24"
      and "get_prop data ''gold22k_per_gram'' = Inr g22"
      and "get_prop data ''gold18k_per_gram'' = Inr g18"
      and "get_prop data ''silver_per_kg'' = Inr sv"
      and "get_prop data ''copper_per_kg'' = Inr cu"
      and "get_prop data ''last_updated_time'' = Inr lu"
      and "Number_js rt g24 = Inr n24" and "Number_js rt g22 = Inr n22"
      and "Number_js rt g18 = Inr n18" and "Number_js rt sv = Inr nsv"
      and "Number_js rt cu = Inr ncu"
  shows "search_snapshot rt c data =
           Inr \<lparr> gold24k = (if n24 \<noteq> NaN \<and> Fin 0 < n24 then n24 else Fin 8650),
                 gold22k = (if n22 \<noteq> NaN \<and> Fin 0 < n22 then n22 else Fin 7930),
                 gold18k = (if n18 \<noteq> NaN \<and> Fin 0 < n18 then n18 else Fin 6480),
                 silver = (if nsv \<noteq> NaN \<and> Fin 0 < nsv then nsv else Fin 108500),
                 copper = (if ncu \<noteq> NaN \<and> Fin 0 < ncu then ncu else Fin 920),
                 lastUpdated = (case lu of Some v \<Rightarrow> if truthy lu then v else JStr c
                                          | None \<Rightarrow> JStr c),
                 currency = ''INR'' \<rparr>"
  unfolding search_snapshot_def
    validated_field_Inr [OF assms(1) assms(7)] validated_field_Inr [OF assms(2) assms(8)]
    validated_field_Inr [OF assms(3) assms(9)] validated_field_Inr [OF assms(4) assms(10)]
    validated_field_Inr [OF assms(5) assms(11)] assms(6)
  by (simp only: sum.case)

lemma search_snapshot_Inr_fields:
  assumes "search_snapshot rt c data = Inr p"
  shows "(\<exists>a. validated_field rt data ''gold24k_per_gram'' (Fin 8650) = Inr a)
       \<and> (\<exists>a. validated_field rt data ''gold22k_per_gram'' (Fin 7930) = Inr a)
       \<and> (\<exists>a. validated_field rt data ''gold18k_per_gram'' (Fin 6480) = Inr a)
       \<and> (\<exists>a. validated_field rt data ''silver_per_kg'' (Fin 108500) = Inr a)
       \<and> (\<exists>a. validated_field rt data ''copper_per_kg'' (Fin 920) = Inr a)"
  using assms by (simp add: search_snapshot_def split: sum.splits)

lemma search_snapshot_Inl:
  assumes "get_prop data ''gold24k_per_gram'' = Inr g24"
      and "get_prop data ''gold22k_per_gram'' = Inr g22"
      and "get_prop data ''gold18k_per_gram'' = Inr g18"
      and "get_prop data ''silver_per_kg'' = Inr sv"
      and "get_prop data ''copper_per_kg'' = Inr cu"
      and "(\<exists>x. Number_js rt g24 = Inl x) \<or> (\<exists>x. Number_js rt g22 = Inl x)
          \<or> (\<exists>x. Number_js rt g18 = Inl x) \<or> (\<exists>x. Number_js rt sv = Inl x)
          \<or> (\<exists>x. Number_js rt cu = Inl x)"
  shows "\<exists>x. search_snapshot rt c data = Inl x"
proof (cases "search_snapshot rt c data")
  case (Inl x)
  then show ?thesis by blast
next
  case (Inr p)
  note f = search_snapshot_Inr_fields [OF Inr]
  have "\<not> (\<exists>x. Number_js rt g24 = Inl x)"
    using f validated_field_Inl [OF assms(1)] by fastforce
  moreover have "\<not> (\<exists>x. Number_js rt g22 = Inl x)"
    using f validated_field_Inl [OF assms(2)] by fastforce
  moreover have "\<not> (\<exists>x. Number_js rt g18 = Inl x)"
    using f validated_field_Inl [OF assms(3)] by fastforce
  moreover have "\<not> (\<exists>x. Number_js rt sv = Inl x)"
    using f validated_field_Inl [OF assms(4)] by fastforce
  moreover have "\<not> (\<exists>x. Number_js rt cu = Inl x)"
    using f validated_field_Inl [OF assms(5)] by fastforce
  ultimately show ?thesis using assms(6) by blast
qed

text \<open>
  C1. The claim: a gold quote whose per-gram conversion is outside (5000, 12000) gives
  \<open>gold24k = 8250.50\<close>, and a silver quote whose per-kg conversion is outside
  (50000, 150000) gives \<open>silver = 105000.75\<close>. The code computes both gated values and
  returns the ungated ones: with gold at 50 and silver at 10 per ounce the snapshot carries
  \<open>50 / 31.1035\<close> and \<open>10 / 31.1035 * 1000\<close>, while its 22k and 18k prices are derived from
  the gated 8250.50.
\<close>

theorem gate_result_not_returned:
  "fetchLiveMetalPrices example_runtime world_implausible =
     Inr \<lparr> gold24k = Fin (50 / 31.1035),
           gold22k = Fin (8250.50 * (22 / 24)),
           gold18k = Fin (8250.50 * (18 / 24)),
           silver = Fin (10 / 31.1035 * 1000),
           copper = Fin 945.25,
           lastUpdated = JStr ''3/11/2026, 10:00:00'',
           currency = ''INR'' \<rparr>"
  by (simp add: fetchLiveMetalPrices_def goldapi_tier_def price_of_def world_implausible_def
      quote_def copper_estimate_def jsnum_ops Let_def)

text \<open>
  C2, as stated, fails: when nothing outside answers, the static snapshot has
  \<open>gold22k = 7930\<close>, and \<open>8650 * 22 / 24\<close> is not 7930, however the product is associated.
\<close>

theorem static_ratio_counterexample:
  "fetchLiveMetalPrices example_runtime world_offline = Inr (static_snapshot world_offline)
   \<and> gold22k (static_snapshot world_offline)
       \<noteq> gold24k (static_snapshot world_offline) * Fin 22 / Fin 24
   \<and> gold22k (static_snapshot world_offline)
       \<noteq> gold24k (static_snapshot world_offline) * (Fin 22 / Fin 24)"
  by (simp add: fetchLiveMetalPrices_def goldapi_tier_def search_tier_def
      world_offline_def static_snapshot_def jsnum_ops)

text \<open>
  C2, amended: a snapshot that the first tier produces with its 24k price inside
  (5000, 12000) is the result of \<open>fetchLiveMetalPrices\<close> and has
  \<open>gold22k = gold24k * (22 / 24)\<close> and \<open>gold18k = gold24k * (18 / 24)\<close>: the very products
  the code computes, with the quotient taken first.
\<close>

theorem goldapi_ratio_in_band:
  assumes "goldapi_tier rt w = Inr p"
      and "Fin 5000 < gold24k p" and "gold24k p < Fin 12000"
  shows "fetchLiveMetalPrices rt w = Inr p
       \<and> gold22k p = gold24k p * (Fin 22 / Fin 24)
       \<and> gold18k p = gold24k p * (Fin 18 / Fin 24)"
proof -
  have "gold22k p = gold24k p * (Fin 22 / Fin 24)
      \<and> gold18k p = gold24k p * (Fin 18 / Fin 24)"
    using assms
    by (auto simp: goldapi_tier_def Let_def split: sum.splits prod.splits)
  then show ?thesis
    using fetch_from_goldapi [OF assms(1)] by simp
qed

theorem goldapi_ratio_in_band_witness:
  "goldapi_tier example_runtime world_plausible = Inr plausible_snapshot
   \<and> Fin 5000 < gold24k plausible_snapshot \<and> gold24k plausible_snapshot < Fin 12000
   \<and> fetchLiveMetalPrices example_runtime world_plausible = Inr plausible_snapshot
   \<and> gold22k plausible_snapshot = gold24k plausible_snapshot * (Fin 22 / Fin 24)
   \<and> gold18k plausible_snapshot = gold24k plausible_snapshot * (Fin 18 / Fin 24)"
proof -
  have h1: "goldapi_tier example_runtime world_plausible = Inr plausible_snapshot"
    by (simp add: goldapi_tier_def price_of_def world_plausible_def quote_def
        copper_estimate_def example_runtime_def plausible_snapshot_def jsnum_ops Let_def)
  have h2: "Fin 5000 < gold24k plausible_snapshot"
    by (simp add: plausible_snapshot_def jsnum_ops)
  have h3: "gold24k plausible_snapshot < Fin 12000"
    by (simp add: plausible_snapshot_def jsnum_ops)
  show ?thesis
    using h1 h2 h3 goldapi_ratio_in_band [OF h1 h2 h3] by simp
qed

text \<open>
  C3. \<open>fetchLiveMetalPrices\<close> returns a snapshot for every outcome of the two HTTP
  exchanges and of the two generative calls, and for every behaviour of the runtime's
  conversions: no error reaches the caller. Each tier's failure is caught where the next
  tier starts: a first tier that returns is the result; one that throws hands over to the
  second tier, whose snapshot is then the result; when that throws as well the result is
  the static snapshot. A failed adapter call for either symbol makes the first tier throw,
  a failed generative call or an answer that is not JSON makes the second tier throw, and
  the outcome of the copper request never decides whether the first tier throws.
\<close>

theorem fetchLiveMetalPrices_total:
  "(\<exists>p. fetchLiveMetalPrices rt w = Inr p)
   \<and> (\<forall>p. goldapi_tier rt w = Inr p \<longrightarrow> fetchLiveMetalPrices rt w = Inr p)
   \<and> (\<forall>e p. goldapi_tier rt w = Inl e \<and> search_tier rt w = Inr p
          \<longrightarrow> fetchLiveMetalPrices rt w = Inr p)
   \<and> (\<forall>e e'. goldapi_tier rt w = Inl e \<and> search_tier rt w = Inl e'
          \<longrightarrow> fetchLiveMetalPrices rt w = Inr (static_snapshot w))
   \<and> (\<forall>e. fetchFromGoldApi (http_get w ''XAU'') = Inl e
           \<or> fetchFromGoldApi (http_get w ''XAG'') = Inl e
          \<longrightarrow> (\<exists>e'. goldapi_tier rt w = Inl e'))
   \<and> (gen_search w = GenFailure
       \<or> (\<exists>t. gen_search w = GenResponse t \<and> JSON_parse rt (text_or t ''{}'') = None)
          \<longrightarrow> (\<exists>e'. search_tier rt w = Inl e'))
   \<and> (\<forall>g. (\<exists>e. goldapi_tier rt (w\<lparr>gen_copper := g\<rparr>) = Inl e)
            = (\<exists>e. goldapi_tier rt w = Inl e))"
proof -
  have c1: "\<exists>p. fetchLiveMetalPrices rt w = Inr p"
    by (simp add: fetchLiveMetalPrices_def split: sum.splits)
  have c2: "\<forall>p. goldapi_tier rt w = Inr p \<longrightarrow> fetchLiveMetalPrices rt w = Inr p"
    by (simp add: fetch_from_goldapi)
  have c3: "\<forall>e p. goldapi_tier rt w = Inl e \<and> search_tier rt w = Inr p
              \<longrightarrow> fetchLiveMetalPrices rt w = Inr p"
    by (simp add: fetch_from_search)
  have c4: "\<forall>e e'. goldapi_tier rt w = Inl e \<and> search_tier rt w = Inl e'
              \<longrightarrow> fetchLiveMetalPrices rt w = Inr (static_snapshot w)"
    by (simp add: fetch_from_static)
  have c5: "\<forall>e. fetchFromGoldApi (http_get w ''XAU'') = Inl e
               \<or> fetchFromGoldApi (http_get w ''XAG'') = Inl e
              \<longrightarrow> (\<exists>e'. goldapi_tier rt w = Inl e')"
    using goldapi_tier_adapter_failure by blast
  have c6: "gen_search w = GenFailure
           \<or> (\<exists>t. gen_search w = GenResponse t \<and> JSON_parse rt (text_or t ''{}'') = None)
              \<longrightarrow> (\<exists>e'. search_tier rt w = Inl e')"
    using search_tier_generative_failure by blast
  have c7: "\<forall>g. (\<exists>e. goldapi_tier rt (w\<lparr>gen_copper := g\<rparr>) = Inl e)
                = (\<exists>e. goldapi_tier rt w = Inl e)"
    by (simp add: goldapi_tier_copper_contained)
  show ?thesis
    by (intro conjI c1 c2 c3 c4 c5 c6 c7)
qed

theorem fetchLiveMetalPrices_total_witness:
  "goldapi_tier example_runtime world_plausible = Inr plausible_snapshot
   \<and> fetchLiveMetalPrices example_runtime world_plausible = Inr plausible_snapshot
   \<and> fetchFromGoldApi (http_get (world_rate_limited None) ''XAU'')
       = Inl (UpstreamError ''GoldAPI error: Too Many Requests'')
   \<and> search_tier example_runtime (world_rate_limited None)
       = Inr (static_snapshot (world_rate_limited None))
   \<and> fetchLiveMetalPrices example_runtime (world_rate_limited None)
       = Inr (static_snapshot (world_rate_limited None))
   \<and> fetchFromGoldApi (http_get world_offline ''XAG'') = Inl TransportError
   \<and> gen_search world_offline = GenFailure
   \<and> fetchLiveMetalPrices example_runtime world_offline = Inr (static_snapshot world_offline)"
proof -
  let ?r = "world_rate_limited None"
  have a1: "goldapi_tier example_runtime world_plausible = Inr plausible_snapshot"
    by (simp add: goldapi_tier_def price_of_def world_plausible_def quote_def
        copper_estimate_def example_runtime_def plausible_snapshot_def jsnum_ops Let_def)
  have b1: "fetchFromGoldApi (http_get ?r ''XAU'')
              = Inl (UpstreamError ''GoldAPI error: Too Many Requests'')"
    by (simp add: world_rate_limited_def)
  have b2: "search_tier example_runtime ?r = Inr (static_snapshot ?r)"
    by (simp add: search_tier_def search_snapshot_def validated_field_def validate_def
        world_rate_limited_def example_runtime_def static_snapshot_def jsnum_ops)
  have c1: "fetchFromGoldApi (http_get world_offline ''XAG'') = Inl TransportError"
    by (simp add: world_offline_def)
  have c2: "gen_search world_offline = GenFailure"
    by (simp add: world_offline_def)
  note P = fetchLiveMetalPrices_total [of example_runtime world_plausible]
  note R = fetchLiveMetalPrices_total [of example_runtime ?r]
  note F = fetchLiveMetalPrices_total [of example_runtime world_offline]
  have a2: "fetchLiveMetalPrices example_runtime world_plausible = Inr plausible_snapshot"
    using a1 P [THEN conjunct2, THEN conjunct1] by blast
  have "\<exists>e'. goldapi_tier example_runtime ?r = Inl e'"
    using b1 R [THEN conjunct2, THEN conjunct2, THEN conjunct2, THEN conjunct2, THEN conjunct1]
    by blast
  then have b3: "fetchLiveMetalPrices example_runtime ?r = Inr (static_snapshot ?r)"
    using b2 R [THEN conjunct2, THEN conjunct2, THEN conjunct1] by blast
  have "\<exists>e'. goldapi_tier example_runtime world_offline = Inl e'"
    using c1 F [THEN conjunct2, THEN conjunct2, THEN conjunct2, THEN conjunct2, THEN conjunct1]
    by blast
  moreover have "\<exists>e'. search_tier example_runtime world_offline = Inl e'"
    using c2 F [THEN conjunct2, THEN conjunct2, THEN conjunct2, THEN conjunct2,
                THEN conjunct2, THEN conjunct1]
    by blast
  ultimately have c3: "fetchLiveMetalPrices example_runtime world_offline
                         = Inr (static_snapshot world_offline)"
    using F [THEN conjunct2, THEN conjunct2, THEN conjunct2, THEN conjunct1] by blast
  show ?thesis
    by (intro conjI a1 a2 b1 b2 b3 c1 c2 c3)
qed

text \<open>
  C4. When both quotes arrive, the gold per-gram conversion is inside (5000, 12000) and
  the silver per-kg conversion is inside (50000, 150000), the snapshot carries the direct
  conversions \<open>goldPrice / 31.1035\<close> and \<open>silverPrice / 31.1035 * 1000\<close>, and the 22k and
  18k prices are derived from that 24k conversion: no fallback constant is substituted.
  \<open>goldNum\<close> and \<open>silverNum\<close> are the numbers that the division makes of the two prices.
\<close>

theorem direct_conversion_in_band:
  assumes "fetchFromGoldApi (http_get w ''XAU'') = Inr goldData"
      and "fetchFromGoldApi (http_get w ''XAG'') = Inr silverData"
      and "get_prop goldData ''price'' = Inr goldPrice"
      and "get_prop silverData ''price'' = Inr silverPrice"
      and "Number_js rt goldPrice = Inr goldNum"
      and "Number_js rt silverPrice = Inr silverNum"
      and "Fin 5000 < goldNum / Fin 31.1035"
      and "goldNum / Fin 31.1035 < Fin 12000"
      and "Fin 50000 < silverNum / Fin 31.1035 * Fin 1000"
      and "silverNum / Fin 31.1035 * Fin 1000 < Fin 150000"
  shows "\<exists>p. fetchLiveMetalPrices rt w = Inr p
       \<and> gold24k p = goldNum / Fin 31.1035
       \<and> gold22k p = goldNum / Fin 31.1035 * (Fin 22 / Fin 24)
       \<and> gold18k p = goldNum / Fin 31.1035 * (Fin 18 / Fin 24)
       \<and> silver p = silverNum / Fin 31.1035 * Fin 1000"
  using assms
  by (simp add: fetchLiveMetalPrices_def goldapi_tier_def price_of_def Let_def)

theorem direct_conversion_in_band_witness:
  "fetchFromGoldApi (http_get world_plausible ''XAU'')
     = Inr (JObj [(''price'', JNum (Fin 279500))])
   \<and> fetchFromGoldApi (http_get world_plausible ''XAG'')
     = Inr (JObj [(''price'', JNum (Fin 3000))])
   \<and> Fin 5000 < Fin 279500 / Fin 31.1035 \<and> Fin 279500 / Fin 31.1035 < Fin 12000
   \<and> Fin 50000 < Fin 3000 / Fin 31.1035 * Fin 1000
   \<and> Fin 3000 / Fin 31.1035 * Fin 1000 < Fin 150000
   \<and> (\<exists>p. fetchLiveMetalPrices example_runtime world_plausible = Inr p
        \<and> gold24k p = Fin 279500 / Fin 31.1035
        \<and> gold22k p = Fin 279500 / Fin 31.1035 * (Fin 22 / Fin 24)
        \<and> gold18k p = Fin 279500 / Fin 31.1035 * (Fin 18 / Fin 24)
        \<and> silver p = Fin 3000 / Fin 31.1035 * Fin 1000)"
proof -
  let ?g = "JObj [(''price'', JNum (Fin 279500))]"
  let ?s = "JObj [(''price'', JNum (Fin 3000))]"
  have h1: "fetchFromGoldApi (http_get world_plausible ''XAU'') = Inr ?g"
    by (simp add: world_plausible_def quote_def)
  have h2: "fetchFromGoldApi (http_get world_plausible ''XAG'') = Inr ?s"
    by (simp add: world_plausible_def quote_def)
  have h3: "get_prop ?g ''price'' = Inr (Some (JNum (Fin 279500)))"
    by simp
  have h4: "get_prop ?s ''price'' = Inr (Some (JNum (Fin 3000)))"
    by simp
  have n1: "Number_js example_runtime (Some (JNum (Fin 279500))) = Inr (Fin 279500)"
    by simp
  have n2: "Number_js example_runtime (Some (JNum (Fin 3000))) = Inr (Fin 3000)"
    by simp
  have h5: "Fin 5000 < Fin 279500 / Fin 31.1035"
    by (simp add: jsnum_ops)
  have h6: "Fin 279500 / Fin 31.1035 < Fin 12000"
    by (simp add: jsnum_ops)
  have h7: "Fin 50000 < Fin 3000 / Fin 31.1035 * Fin 1000"
    by (simp add: jsnum_ops)
  have h8: "Fin 3000 / Fin 31.1035 * Fin 1000 < Fin 150000"
    by (simp add: jsnum_ops)
  show ?thesis
    using h1 h2 h5 h6 h7 h8 direct_conversion_in_band [OF h1 h2 h3 h4 n1 n2 h5 h6 h7 h8]
    by simp
qed

text \<open>
  C5, as stated, fails, in two ways. The claim lets a number through only when it is
  finite, the code when it is not NaN: the answer \<^verbatim>\<open>{"gold24k_per_gram": 1e999}\<close> parses to
  \<^verbatim>\<open>Infinity\<close>, which is not finite, and the snapshot carries it and not the fallback 8650.
  And the fields are not validated independently when a conversion throws: in the answer
  \<^verbatim>\<open>{"gold24k_per_gram": {"toString": 1}, "silver_per_kg": 100000}\<close> the silver field is the
  finite positive number 100000, but \<^verbatim>\<open>Number\<close> throws on the 24k field, the inner
  \<^verbatim>\<open>catch\<close> returns the static snapshot, and its silver price is 108500.
\<close>

theorem validate_infinity_counterexample:
  "JSON_parse example_runtime (text_or (Some text_infinite) ''{}'') = Some data_infinite
   \<and> get_prop data_infinite ''gold24k_per_gram'' = Inr (Some (JNum PosInf))
   \<and> Number_js example_runtime (Some (JNum PosInf)) = Inr PosInf
   \<and> \<not> isFinite PosInf
   \<and> fetchLiveMetalPrices example_runtime (world_rate_limited (Some text_infinite)) =
       Inr \<lparr> gold24k = PosInf, gold22k = Fin 7930, gold18k = Fin 6480,
             silver = Fin 108500, copper = Fin 920,
             lastUpdated = JStr ''3/11/2026, 10:00:00'', currency = ''INR'' \<rparr>
   \<and> PosInf \<noteq> Fin 8650
   \<and> JSON_parse example_runtime (text_or (Some text_tostring) ''{}'') = Some data_tostring
   \<and> get_prop data_tostring ''silver_per_kg'' = Inr (Some (JNum (Fin 100000)))
   \<and> Number_js example_runtime (Some (JNum (Fin 100000))) = Inr (Fin 100000)
   \<and> isFinite (Fin 100000) \<and> Fin 0 < Fin 100000
   \<and> fetchLiveMetalPrices example_runtime (world_rate_limited (Some text_tostring)) =
       Inr \<lparr> gold24k = Fin 8650, gold22k = Fin 7930, gold18k = Fin 6480,
             silver = Fin 108500, copper = Fin 920,
             lastUpdated = JStr ''3/11/2026, 10:00:00'', currency = ''INR'' \<rparr>
   \<and> Fin 108500 \<noteq> Fin 100000"
  by (simp add: fetchLiveMetalPrices_def goldapi_tier_def search_tier_def search_snapshot_def
      validated_field_def validate_def static_snapshot_def
      world_rate_limited_def example_runtime_def text_infinite_def text_partial_def
      text_tostring_def data_infinite_def data_tostring_def jsnum_ops Let_def)

text \<open>
  C5, amended: in the second tier (the first tier failed, the generative call answered and
  its text parsed to a value with readable properties), when \<^verbatim>\<open>Number\<close> throws on none of
  the five parsed fields, each of the five price fields is \<open>Number(parsed field)\<close> when that
  number is not NaN and is above zero, \<^verbatim>\<open>Infinity\<close> included, and the fallback constant of
  the field otherwise (8650, 7930, 6480, 108500, 920), each field on its own. When
  \<^verbatim>\<open>Number\<close> throws on one of the five, the tier fails and the result is the static
  snapshot, which carries the same five constants.
\<close>

theorem search_tier_fields:
  assumes "goldapi_tier rt w = Inl e"
      and "gen_search w = GenResponse t"
      and "JSON_parse rt (text_or t ''{}'') = Some data"
      and "get_prop data ''gold24k_per_gram'' = Inr g24"
      and "get_prop data ''gold22k_per_gram'' = Inr g22"
      and "get_prop data ''gold18k_per_gram'' = Inr g18"
      and "get_prop data ''silver_per_kg'' = Inr sv"
      and "get_prop data ''copper_per_kg'' = Inr cu"
  shows "(Number_js rt g24 = Inr n24 \<and> Number_js rt g22 = Inr n22
          \<and> Number_js rt g18 = Inr n18 \<and> Number_js rt sv = Inr nsv
          \<and> Number_js rt cu = Inr ncu \<longrightarrow>
          (\<exists>p. fetchLiveMetalPrices rt w = Inr p
            \<and> gold24k p = (if n24 \<noteq> NaN \<and> Fin 0 < n24 then n24 else Fin 8650)
            \<and> gold22k p = (if n22 \<noteq> NaN \<and> Fin 0 < n22 then n22 else Fin 7930)
            \<and> gold18k p = (if n18 \<noteq> NaN \<and> Fin 0 < n18 then n18 else Fin 6480)
            \<and> silver p = (if nsv \<noteq> NaN \<and> Fin 0 < nsv then nsv else Fin 108500)
            \<and> copper p = (if ncu \<noteq> NaN \<and> Fin 0 < ncu then ncu else Fin 920)))
       \<and> ((\<exists>x. Number_js rt g24 = Inl x) \<or> (\<exists>x. Number_js rt g22 = Inl x)
          \<or> (\<exists>x. Number_js rt g18 = Inl x) \<or> (\<exists>x. Number_js rt sv = Inl x)
          \<or> (\<exists>x. Number_js rt cu = Inl x) \<longrightarrow>
          fetchLiveMetalPrices rt w = Inr (static_snapshot w))"
proof -
  obtain lu where lu: "get_prop data ''last_updated_time'' = Inr lu"
    using get_prop_any_key [OF assms(4)] by blast
  have tier: "search_tier rt w = search_snapshot rt (now w) data"
    using assms(2,3) by (simp add: search_tier_def)
  have good: "\<exists>p. fetchLiveMetalPrices rt w = Inr p
            \<and> gold24k p = (if n24 \<noteq> NaN \<and> Fin 0 < n24 then n24 else Fin 8650)
            \<and> gold22k p = (if n22 \<noteq> NaN \<and> Fin 0 < n22 then n22 else Fin 7930)
            \<and> gold18k p = (if n18 \<noteq> NaN \<and> Fin 0 < n18 then n18 else Fin 6480)
            \<and> silver p = (if nsv \<noteq> NaN \<and> Fin 0 < nsv then nsv else Fin 108500)
            \<and> copper p = (if ncu \<noteq> NaN \<and> Fin 0 < ncu then ncu else Fin 920)"
    if n: "Number_js rt g24 = Inr n24" "Number_js rt g22 = Inr n22"
          "Number_js rt g18 = Inr n18" "Number_js rt sv = Inr nsv" "Number_js rt cu = Inr ncu"
  proof -
    note snap = search_snapshot_Inr [OF assms(4-8) lu n, of "now w"]
    have "fetchLiveMetalPrices rt w = search_snapshot rt (now w) data"
      using fetch_from_search [OF assms(1)] tier snap by simp
    then show ?thesis
      unfolding snap by simp
  qed
  have bad: "fetchLiveMetalPrices rt w = Inr (static_snapshot w)"
    if thrown: "(\<exists>x. Number_js rt g24 = Inl x) \<or> (\<exists>x. Number_js rt g22 = Inl x)
          \<or> (\<exists>x. Number_js rt g18 = Inl x) \<or> (\<exists>x. Number_js rt sv = Inl x)
          \<or> (\<exists>x. Number_js rt cu = Inl x)"
  proof -
    obtain x where "search_tier rt w = Inl x"
      using search_snapshot_Inl [OF assms(4-8) thrown, of "now w"] tier by auto
    then show ?thesis
      by (rule fetch_from_static [OF assms(1)])
  qed
  show ?thesis
    using good bad by blast
qed

theorem search_tier_fields_witness:
  "goldapi_tier example_runtime (world_rate_limited (Some text_partial))
     = Inl (UpstreamError ''GoldAPI error: Too Many Requests'')
   \<and> JSON_parse example_runtime (text_or (Some text_partial) ''{}'') = Some data_partial
   \<and> (\<exists>p. fetchLiveMetalPrices example_runtime (world_rate_limited (Some text_partial)) = Inr p
        \<and> gold24k p = Fin 8700 \<and> gold22k p = Fin 7930 \<and> gold18k p = Fin 6480
        \<and> silver p = Fin 108500 \<and> copper p = Fin 920)
   \<and> JSON_parse example_runtime (text_or (Some text_tostring) ''{}'') = Some data_tostring
   \<and> Number_js example_runtime (Some (JObj [(''toString'', JNum (Fin 1))])) = Inl TypeError
   \<and> fetchLiveMetalPrices example_runtime (world_rate_limited (Some text_tostring))
       = Inr (static_snapshot (world_rate_limited (Some text_tostring)))"
proof -
  let ?w = "world_rate_limited (Some text_partial)"
  let ?v = "world_rate_limited (Some text_tostring)"
  have h1: "goldapi_tier example_runtime ?w
              = Inl (UpstreamError ''GoldAPI error: Too Many Requests'')"
    by (simp add: goldapi_tier_def world_rate_limited_def)
  have h2: "gen_search ?w = GenResponse (Some text_partial)"
    by (simp add: world_rate_limited_def)
  have h3: "JSON_parse example_runtime (text_or (Some text_partial) ''{}'') = Some data_partial"
    by (simp add: example_runtime_def text_partial_def)
  have h4: "get_prop data_partial ''gold24k_per_gram'' = Inr (Some (JNum (Fin 8700)))"
    by (simp add: data_partial_def)
  have h5: "get_prop data_partial ''gold22k_per_gram'' = Inr (Some (JNum (Fin (- 1))))"
    by (simp add: data_partial_def)
  have h6: "get_prop data_partial ''gold18k_per_gram'' = Inr None"
    by (simp add: data_partial_def)
  have h7: "get_prop data_partial ''silver_per_kg'' = Inr (Some JNull)"
    by (simp add: data_partial_def)
  have h8: "get_prop data_partial ''copper_per_kg'' = Inr None"
    by (simp add: data_partial_def)
  have n: "Number_js example_runtime (Some (JNum (Fin 8700))) = Inr (Fin 8700)
         \<and> Number_js example_runtime (Some (JNum (Fin (- 1)))) = Inr (Fin (- 1))
         \<and> Number_js example_runtime None = Inr NaN
         \<and> Number_js example_runtime (Some JNull) = Inr (Fin 0)
         \<and> Number_js example_runtime None = Inr NaN"
    by simp
  have first: "\<exists>p. fetchLiveMetalPrices example_runtime ?w = Inr p
        \<and> gold24k p = Fin 8700 \<and> gold22k p = Fin 7930 \<and> gold18k p = Fin 6480
        \<and> silver p = Fin 108500 \<and> copper p = Fin 920"
    using n search_tier_fields [OF h1 h2 h3 h4 h5 h6 h7 h8,
        of "Fin 8700" "Fin (- 1)" NaN "Fin 0" NaN]
    by (simp add: jsnum_ops)
  have k1: "goldapi_tier example_runtime ?v
              = Inl (UpstreamError ''GoldAPI error: Too Many Requests'')"
    by (simp add: goldapi_tier_def world_rate_limited_def)
  have k2: "gen_search ?v = GenResponse (Some text_tostring)"
    by (simp add: world_rate_limited_def)
  have k3: "JSON_parse example_runtime (text_or (Some text_tostring) ''{}'') = Some data_tostring"
    by (simp add: example_runtime_def text_tostring_def text_partial_def text_infinite_def)
  have k4: "get_prop data_tostring ''gold24k_per_gram''
              = Inr (Some (JObj [(''toString'', JNum (Fin 1))]))"
    by (simp add: data_tostring_def)
  have k5: "get_prop data_tostring ''gold22k_per_gram'' = Inr None"
    by (simp add: data_tostring_def)
  have k6: "get_prop data_tostring ''gold18k_per_gram'' = Inr None"
    by (simp add: data_tostring_def)
  have k7: "get_prop data_tostring ''silver_per_kg'' = Inr (Some (JNum (Fin 100000)))"
    by (simp add: data_tostring_def)
  have k8: "get_prop data_tostring ''copper_per_kg'' = Inr None"
    by (simp add: data_tostring_def)
  have t: "Number_js example_runtime (Some (JObj [(''toString'', JNum (Fin 1))])) = Inl TypeError"
    by simp
  have second: "fetchLiveMetalPrices example_runtime ?v = Inr (static_snapshot ?v)"
    using t search_tier_fields [OF k1 k2 k3 k4 k5 k6 k7 k8] by blast
  show ?thesis
    using h1 h3 first k3 t second by blast
qed

text \<open>
  C6. When the first tier and the second tier both fail, \<open>fetchLiveMetalPrices\<close> returns
  the static snapshot 8650, 7930, 6480, 108500, 920 with currency INR and \<open>lastUpdated\<close>
  the clock string of that moment.
\<close>

theorem static_fallback:
  assumes "goldapi_tier rt w = Inl e1" and "search_tier rt w = Inl e2"
  shows "fetchLiveMetalPrices rt w =
           Inr \<lparr> gold24k = Fin 8650, gold22k = Fin 7930, gold18k = Fin 6480,
                 silver = Fin 108500, copper = Fin 920,
                 lastUpdated = JStr (now w), currency = ''INR'' \<rparr>"
  using assms by (simp add: fetchLiveMetalPrices_def static_snapshot_def)

theorem static_fallback_witness:
  "goldapi_tier example_runtime world_offline = Inl TransportError
   \<and> search_tier example_runtime world_offline = Inl TransportError
   \<and> fetchLiveMetalPrices example_runtime world_offline =
       Inr \<lparr> gold24k = Fin 8650, gold22k = Fin 7930, gold18k = Fin 6480,
             silver = Fin 108500, copper = Fin 920,
             lastUpdated = JStr ''3/11/2026, 10:00:00'', currency = ''INR'' \<rparr>"
proof -
  have h1: "goldapi_tier example_runtime world_offline = Inl TransportError"
    by (simp add: goldapi_tier_def world_offline_def)
  have h2: "search_tier example_runtime world_offline = Inl TransportError"
    by (simp add: search_tier_def world_offline_def)
  have n: "now world_offline = ''3/11/2026, 10:00:00''"
    by (simp add: world_offline_def)
  show ?thesis
    using h1 h2 static_fallback [OF h1 h2] unfolding n by simp
qed

text \<open>
  C10. On every path the snapshot that \<open>fetchLiveMetalPrices\<close> returns has the currency
  \<^verbatim>\<open>"INR"\<close>.
\<close>

theorem currency_always_INR:
  "\<exists>p. fetchLiveMetalPrices rt w = Inr p \<and> currency p = ''INR''"
  by (auto simp: fetchLiveMetalPrices_def static_snapshot_def tier_currency split: sum.splits)

theorem currency_always_INR_witness:
  "\<exists>p. fetchLiveMetalPrices example_runtime (world_rate_limited (Some text_partial)) = Inr p
       \<and> currency p = ''INR''"
  using currency_always_INR [of example_runtime "world_rate_limited (Some text_partial)"]
  by simp

section \<open>The live ticker\<close>

lemma fluctuate_not_NaN: "fluctuate rnd val \<noteq> NaN"
  by (cases val) (simp_all add: fluctuate_def Let_def isNaN_iff)

lemma zero_drift_change:
  assumes "rnd * Fin 0.001 - Fin 0.0005 = Fin 0"
  shows "Fin 1 + (rnd * Fin 0.001 - Fin 0.0005) = Fin 1"
  using assms by (simp add: jsnum_ops)

lemma fluctuate_zero_drift:
  assumes "val \<noteq> NaN" and "rnd * Fin 0.001 - Fin 0.0005 = Fin 0"
  shows "fluctuate rnd val = val"
proof -
  have ch: "Fin 1 + (rnd * Fin 0.001 - Fin 0.0005) = Fin 1"
    by (rule zero_drift_change [OF assms(2)])
  show ?thesis
    unfolding fluctuate_def Let_def ch
    using assms(1) by (simp add: isNaN_iff mul_one)
qed

text \<open>
  C7. If no price field of the live snapshot is NaN and each of the five draws gives the
  perturbation \<open>rnd * 0.001 - 0.0005 = 0\<close>, one tick leaves the live snapshot as it was:
  the five price fields are unchanged (and so are the other two).
\<close>

theorem tick_zero_drift:
  assumes "gold24k prev \<noteq> NaN" "gold22k prev \<noteq> NaN" "gold18k prev \<noteq> NaN"
          "silver prev \<noteq> NaN" "copper prev \<noteq> NaN"
      and "rnd24k e * Fin 0.001 - Fin 0.0005 = Fin 0"
          "rnd22k e * Fin 0.001 - Fin 0.0005 = Fin 0"
          "rnd18k e * Fin 0.001 - Fin 0.0005 = Fin 0"
          "rndSilver e * Fin 0.001 - Fin 0.0005 = Fin 0"
          "rndCopper e * Fin 0.001 - Fin 0.0005 = Fin 0"
      and "basePrices s \<noteq> None" and "livePrices s = Some prev"
  shows "livePrices (tick e s) = Some prev"
  using assms
  by (simp add: tick_def updated_prices_def Let_def fluctuate_zero_drift)

theorem tick_zero_drift_witness:
  "livePrices loaded_state = Some example_prices
   \<and> rndSilver zero_drift * Fin 0.001 - Fin 0.0005 = Fin 0
   \<and> livePrices (tick zero_drift loaded_state) = Some example_prices"
proof -
  have l: "livePrices loaded_state = Some example_prices"
    by (simp add: loaded_state_def loadPrices_def example_prices_def initial_state_def Let_def)
  have b: "basePrices loaded_state \<noteq> None"
    by (simp add: loaded_state_def loadPrices_def Let_def)
  have n: "gold24k example_prices \<noteq> NaN" "gold22k example_prices \<noteq> NaN"
    "gold18k example_prices \<noteq> NaN" "silver example_prices \<noteq> NaN"
    "copper example_prices \<noteq> NaN"
    by (simp_all add: example_prices_def)
  have z: "rnd24k zero_drift * Fin 0.001 - Fin 0.0005 = Fin 0"
    "rnd22k zero_drift * Fin 0.001 - Fin 0.0005 = Fin 0"
    "rnd18k zero_drift * Fin 0.001 - Fin 0.0005 = Fin 0"
    "rndSilver zero_drift * Fin 0.001 - Fin 0.0005 = Fin 0"
    "rndCopper zero_drift * Fin 0.001 - Fin 0.0005 = Fin 0"
    by (simp_all add: zero_drift_def jsnum_ops)
  show ?thesis
    using l z(4) tick_zero_drift [OF n z b l] by simp
qed

text \<open>
  C8. For every prior value and every draw, \<open>fluctuate\<close> returns a number that is not NaN:
  1000 when the prior value is NaN, the prior value when the perturbed result is NaN, and
  the perturbed result otherwise.
\<close>

theorem fluctuate_never_NaN:
  "fluctuate rnd val \<noteq> NaN
   \<and> fluctuate rnd val =
       (if isNaN val then Fin 1000
        else if isNaN (val * (Fin 1 + (rnd * Fin 0.001 - Fin 0.0005))) then val
        else val * (Fin 1 + (rnd * Fin 0.001 - Fin 0.0005)))"
  using fluctuate_not_NaN [of rnd val] by (simp add: fluctuate_def Let_def)

theorem fluctuate_never_NaN_witness:
  "fluctuate (Fin 0.25) NaN = Fin 1000
   \<and> fluctuate (Fin (- 999.5)) PosInf = PosInf
   \<and> fluctuate (Fin 1) (Fin 2000) = Fin 2001"
  using fluctuate_never_NaN [of "Fin 0.25" NaN]
        fluctuate_never_NaN [of "Fin (- 999.5)" PosInf]
        fluctuate_never_NaN [of "Fin 1" "Fin 2000"]
  by (simp add: jsnum_ops)

section \<open>The chart history\<close>

lemma metal_value_updated_not_NaN: "metal_value m (updated_prices e prev) \<noteq> NaN"
  by (simp add: metal_value_def updated_prices_def fluctuate_not_NaN)

text \<open>When no value is NaN, each of the three histories gets its window and one new point.\<close>

lemma update_history_at:
  assumes "\<And>k. metal_value k updated \<noteq> NaN"
  shows "update_history c updated h m =
           drop (length (h m) - 19) (h m) @ [\<lparr> time = c, value = metal_value m updated \<rparr>]"
  using assms
  by (cases m) (simp_all add: update_history_def record_point_def Let_def isNaN_iff)

lemma step_history:
  assumes "length (history s m) \<le> 20"
  shows "history (step ev s) m =
           drop (length (history s m @ new_points ev s m) - 20)
                (history s m @ new_points ev s m)"
proof (cases ev)
  case (Tick e)
  show ?thesis
  proof (cases "basePrices s = None \<or> livePrices s = None")
    case True
    then show ?thesis
      using assms Tick by (auto simp: tick_def new_points_def)
  next
    case False
    then obtain prev where prev: "livePrices s = Some prev" and base: "basePrices s \<noteq> None"
      by auto
    show ?thesis
      using assms Tick prev base
      by (auto simp: tick_def new_points_def Let_def
            update_history_at [OF metal_value_updated_not_NaN])
  qed
next
  case (Reload d)
  then show ?thesis
    using assms by (simp add: loadPrices_def new_points_def Let_def)
qed

lemma step_history_bound:
  assumes "length (history s m) \<le> 20"
  shows "length (history (step ev s) m) \<le> 20"
  unfolding step_history [OF assms] by simp

text \<open>Cutting to the last \<open>n\<close> elements before an append changes nothing after the next cut.\<close>

lemma drop_window_twice:
  "drop (length (drop (length xs - n) xs @ ys) - n) (drop (length xs - n) xs @ ys)
     = drop (length (xs @ ys) - n) (xs @ ys)"
proof (cases "length xs \<le> n")
  case True
  then show ?thesis by simp
next
  case False
  then have "length xs + length ys - (length xs - n + n) + (length xs - n)
               = length xs + length ys - n"
    by simp
  then show ?thesis by (simp add: drop_append)
qed

lemma run_history:
  assumes "length (history s m) \<le> 20"
  shows "history (run evs s) m =
           drop (length (history s m @ appended evs s m) - 20)
                (history s m @ appended evs s m)"
  using assms
proof (induction evs arbitrary: s)
  case Nil
  then show ?case by (simp add: run_def)
next
  case (Cons ev evs)
  have b: "length (history (step ev s) m) \<le> 20"
    by (rule step_history_bound [OF Cons.prems])
  have "history (run (ev # evs) s) m = history (run evs (step ev s)) m"
    by (simp add: run_def)
  also have "\<dots> = drop (length (history (step ev s) m @ appended evs (step ev s) m) - 20)
                      (history (step ev s) m @ appended evs (step ev s) m)"
    by (rule Cons.IH [OF b])
  also have "\<dots> = drop (length ((history s m @ new_points ev s m)
                                  @ appended evs (step ev s) m) - 20)
                      ((history s m @ new_points ev s m) @ appended evs (step ev s) m)"
    unfolding step_history [OF Cons.prems] by (rule drop_window_twice)
  finally show ?case by simp
qed

lemma loaded_step:
  assumes "basePrices s \<noteq> None" and "livePrices s \<noteq> None"
  shows "basePrices (step ev s) \<noteq> None \<and> livePrices (step ev s) \<noteq> None"
  using assms by (cases ev) (auto simp: tick_def loadPrices_def Let_def)

text \<open>Once prices are loaded, every tick appends one point.\<close>

lemma ticks_appended_length:
  assumes "basePrices s \<noteq> None" and "livePrices s \<noteq> None"
  shows "length (appended (map Tick es) s m) = length es"
  using assms
proof (induction es arbitrary: s)
  case Nil
  then show ?case by simp
next
  case (Cons e es)
  have "length (new_points (Tick e) s m) = 1"
    using Cons.prems by (auto simp: new_points_def)
  moreover have "length (appended (map Tick es) (step (Tick e) s) m) = length es"
    using loaded_step [OF Cons.prems, of "Tick e"] Cons.IH by blast
  ultimately show ?case by simp
qed

text \<open>
  C9. From a state whose history of metal \<open>m\<close> is empty, after any sequence of ticks and
  reloads the history of \<open>m\<close> has at most 20 entries and is the last 20 of the points
  appended, in the order of the appends. With prices loaded, 25 ticks append 25 points, and
  the history is then those points without the first five: 20 entries, oldest evicted
  first.
\<close>

theorem history_sliding_window:
  assumes "history s m = []"
  shows "length (history (run evs s) m) \<le> 20
       \<and> history (run evs s) m = drop (length (appended evs s m) - 20) (appended evs s m)
       \<and> (basePrices s \<noteq> None \<and> livePrices s \<noteq> None \<and> length es = 25 \<longrightarrow>
            length (appended (map Tick es) s m) = 25
          \<and> history (run (map Tick es) s) m = drop 5 (appended (map Tick es) s m)
          \<and> length (history (run (map Tick es) s) m) = 20)"
proof -
  have b: "length (history s m) \<le> 20"
    using assms by simp
  have w: "history (run xs s) m = drop (length (appended xs s m) - 20) (appended xs s m)"
    for xs
    using run_history [OF b, of xs] assms by simp
  have "length (history (run evs s) m) \<le> 20"
    unfolding w by simp
  moreover have "length (appended (map Tick es) s m) = 25
          \<and> history (run (map Tick es) s) m = drop 5 (appended (map Tick es) s m)
          \<and> length (history (run (map Tick es) s) m) = 20"
    if "basePrices s \<noteq> None" "livePrices s \<noteq> None" "length es = 25"
    using ticks_appended_length [OF that(1,2), of es m] that(3) w [of "map Tick es"] by simp
  ultimately show ?thesis
    using w [of evs] by blast
qed

theorem history_sliding_window_witness:
  "history loaded_state Gold = []
   \<and> length (history (run [Tick zero_drift, Reload example_prices, Tick zero_drift]
                          loaded_state) Gold) \<le> 20
   \<and> length (history (run (map Tick (replicate 25 zero_drift)) loaded_state) Gold) = 20
   \<and> history (run (map Tick (replicate 25 zero_drift)) loaded_state) Gold
       = drop 5 (appended (map Tick (replicate 25 zero_drift)) loaded_state Gold)"
proof -
  have h: "history loaded_state Gold = []"
    by (simp add: loaded_state_def loadPrices_def initial_state_def Let_def)
  have l: "basePrices loaded_state \<noteq> None \<and> livePrices loaded_state \<noteq> None
           \<and> length (replicate 25 zero_drift) = 25"
    by (simp add: loaded_state_def loadPrices_def Let_def)
  show ?thesis
    using h l
      history_sliding_window [OF h,
        of "[Tick zero_drift, Reload example_prices, Tick zero_drift]"
           "replicate 25 zero_drift"]
    by blast
qed

end
